theory Spec2Isabelle
  imports Main "HOL-Library.Word" "HOL-Library.Sublist"
begin

section \<open>Severity levels\<close>

text \<open>
  The logging library's level type is \<^verbatim>\<open>type Level uint32\<close> with the constants
  \<^verbatim>\<open>PanicLevel = iota, FatalLevel, ErrorLevel, WarnLevel, InfoLevel, DebugLevel, TraceLevel\<close>:
  a smaller number is a more severe level. (Library declaration, not part of this
  repository; the repository only names the constants.)
\<close>

type_synonym logrus_Level = "32 word"

definition PanicLevel :: logrus_Level where "PanicLevel = 0"
definition FatalLevel :: logrus_Level where "FatalLevel = 1"
definition ErrorLevel :: logrus_Level where "ErrorLevel = 2"
definition WarnLevel :: logrus_Level where "WarnLevel = 3"
definition InfoLevel :: logrus_Level where "InfoLevel = 4"
definition DebugLevel :: logrus_Level where "DebugLevel = 5"
definition TraceLevel :: logrus_Level where "TraceLevel = 6"

text \<open>
  Library function \<^verbatim>\<open>logrus.Level.String\<close>: the lower-case name of a defined level,
  \<^verbatim>\<open>"unknown"\<close> for every other number.
\<close>

definition logrus_Level_String :: "logrus_Level \<Rightarrow> string" where
  "logrus_Level_String level =
     (if level = TraceLevel then ''trace''
      else if level = DebugLevel then ''debug''
      else if level = InfoLevel then ''info''
      else if level = WarnLevel then ''warning''
      else if level = ErrorLevel then ''error''
      else if level = FatalLevel then ''fatal''
      else if level = PanicLevel then ''panic''
      else ''unknown'')"

text \<open>
  \<^verbatim>\<open>type Level uint32\<close> with \<^verbatim>\<open>Debug Level = iota, Info, Warn, Error, Fatal\<close>.
\<close>

type_synonym Level = "32 word"

definition Debug :: Level where "Debug = 0"
definition Info :: Level where "Info = 1"
definition Warn :: Level where "Warn = 2"
definition Error :: Level where "Error = 3"
definition Fatal :: Level where "Fatal = 4"

text \<open>\<^verbatim>\<open>func (l Level) String() string\<close>: a switch over the five constants.\<close>

definition Level_String :: "Level \<Rightarrow> string" where
  "Level_String l =
     (if l = Debug then ''Debug''
      else if l = Info then ''Info''
      else if l = Warn then ''Warn''
      else if l = Error then ''Error''
      else if l = Fatal then ''Fatal''
      else ''Unknown'')"

text \<open>
  \<^verbatim>\<open>func (l Level) getLogrusLevel() logrus.Level\<close>: a switch over the five constants
  whose default branch returns \<^verbatim>\<open>logrus.DebugLevel\<close>.
\<close>

definition getLogrusLevel :: "Level \<Rightarrow> logrus_Level" where
  "getLogrusLevel l =
     (if l = Debug then DebugLevel
      else if l = Info then InfoLevel
      else if l = Warn then WarnLevel
      else if l = Error then ErrorLevel
      else if l = Fatal then FatalLevel
      else DebugLevel)"


section \<open>Errors\<close>

text \<open>
  Go error values. \<open>Fundamental m\<close> is an error that wraps nothing and whose
  \<^verbatim>\<open>Error()\<close> text is \<open>m\<close> (an error made by \<^verbatim>\<open>errors.New\<close>, or one returned by
  the exporter or the tracer provider). \<open>Wrap err m\<close> is the value of
  \<^verbatim>\<open>errors.Wrap(err, m)\<close> of \<^verbatim>\<open>github.com/pkg/errors\<close> for a non-nil \<open>err\<close>. A nil
  error is \<open>None\<close> of \<open>error option\<close>.
\<close>

datatype error = Fundamental string | Wrap error string

text \<open>Library method \<^verbatim>\<open>Error()\<close>: a wrapped error prints as \<^verbatim>\<open>msg + ": " + cause.Error()\<close>.\<close>

fun error_Error :: "error \<Rightarrow> string" where
  "error_Error (Fundamental m) = m"
| "error_Error (Wrap err m) = m @ '': '' @ error_Error err"

text \<open>Library function \<^verbatim>\<open>errors.Cause\<close>: the innermost wrapped error.\<close>

fun errors_Cause :: "error \<Rightarrow> error" where
  "errors_Cause (Fundamental m) = Fundamental m"
| "errors_Cause (Wrap err m) = errors_Cause err"

text \<open>
  The error of \<^verbatim>\<open>strconv.ParseBool\<close>: a \<^verbatim>\<open>*strconv.NumError\<close> with the function name and
  the rejected input.
\<close>

datatype NumError = NumError string string

text \<open>
  Library function \<^verbatim>\<open>strconv.ParseBool\<close>: accepts exactly
  \<^verbatim>\<open>1, t, T, true, TRUE, True\<close> and \<^verbatim>\<open>0, f, F, false, FALSE, False\<close>; every other
  string gives \<^verbatim>\<open>false\<close> and a syntax error.
\<close>

definition ParseBool :: "string \<Rightarrow> bool \<times> NumError option" where
  "ParseBool str =
     (if str \<in> set [''1'', ''t'', ''T'', ''true'', ''TRUE'', ''True''] then (True, None)
      else if str \<in> set [''0'', ''f'', ''F'', ''false'', ''FALSE'', ''False''] then (False, None)
      else (False, Some (NumError ''ParseBool'' str)))"

section \<open>The process and its collaborators\<close>

text \<open>
  What the program does to the outside world is recorded as a sequence of effects, in
  the order of the calls: the lines given to the standard \<^verbatim>\<open>log\<close> package (format and
  argument kept apart), and the calls into the tracing SDK.
\<close>

datatype exporter_Option = WithEndpoint string | WithInsecure

datatype effect =
    SetTextMapPropagator
  | Println string
  | Printf_error string error
  | Printf_NumError string NumError
  | Fatal_string string
  | Fatalf_error string error
  | otlptracegrpc_New "exporter_Option list"
  | NewTracerProvider string
  | SetTracerProvider
  | TracerProvider_Shutdown
  | Exporter_Shutdown

text \<open>
  The answers of the collaborators, which the program cannot influence: the content of
  the \<^verbatim>\<open>.env\<close> file (\<open>None\<close> when there is no such file), whether
  \<^verbatim>\<open>otlptracegrpc.New\<close> succeeds for a given option list, and what the \<open>k\<close>-th call
  (counted from 0) of the tracer provider's and of the exporter's \<^verbatim>\<open>Shutdown\<close> returns.
\<close>

record collaborators =
  dotenv :: "(string \<rightharpoonup> string) option"
  New_result :: "exporter_Option list \<Rightarrow> error option"
  tp_Shutdown_result :: "nat \<Rightarrow> error option"
  exporter_Shutdown_result :: "nat \<Rightarrow> error option"

text \<open>
  A function that can end the process (\<^verbatim>\<open>log.Fatal\<close> prints and calls \<^verbatim>\<open>os.Exit(1)\<close>)
  either returns a value or exits.
\<close>

datatype 'a outcome = Returns 'a | Exits

text \<open>A shutdown callback \<^verbatim>\<open>func() error\<close> acts on the outside world and may fail.\<close>

type_synonym callback = "effect list \<Rightarrow> error option \<times> effect list"

text \<open>
  The package-level variables of \<^verbatim>\<open>otelHelper\<close> (\<^verbatim>\<open>shutdownFuncs\<close>, \<^verbatim>\<open>once\<close>), the process
  environment, and the effects so far.
\<close>

record otel_state =
  environ :: "string \<rightharpoonup> string"
  once_done :: bool
  shutdownFuncs :: "callback list"
  effects :: "effect list"

definition emit :: "effect \<Rightarrow> otel_state \<Rightarrow> otel_state" where
  "emit e st = st\<lparr>effects := effects st @ [e]\<rparr>"

text \<open>Library function \<^verbatim>\<open>os.Getenv\<close>: the empty string for an unset variable.\<close>

definition Getenv :: "otel_state \<Rightarrow> string \<Rightarrow> string" where
  "Getenv st key = (case environ st key of None \<Rightarrow> [] | Some v \<Rightarrow> v)"

text \<open>
  Library function \<^verbatim>\<open>godotenv.Load\<close>: sets the variables of the file that the process
  environment does not define yet; a missing file changes nothing (its error is
  discarded by the caller).
\<close>

definition godotenv_Load :: "(string \<rightharpoonup> string) option \<Rightarrow> otel_state \<Rightarrow> otel_state" where
  "godotenv_Load file st =
     (case file of None \<Rightarrow> st | Some vars \<Rightarrow> st\<lparr>environ := vars ++ environ st\<rparr>)"

section \<open>The shutdown registry\<close>

text \<open>
  \<^verbatim>\<open>func Shutdown()\<close>: a \<^verbatim>\<open>range\<close> loop over \<^verbatim>\<open>shutdownFuncs\<close> that calls each callback
  and prints its error, if any.
\<close>

fun Shutdown_range :: "callback list \<Rightarrow> effect list \<Rightarrow> effect list" where
  "Shutdown_range [] w = w"
| "Shutdown_range (shutdown # rest) w =
     (case shutdown w of
        (None, w') \<Rightarrow> Shutdown_range rest w'
      | (Some err, w') \<Rightarrow>
          Shutdown_range rest (w' @ [Printf_error ''Failed to shut down the service. %v'' err]))"

definition Shutdown :: "otel_state \<Rightarrow> otel_state" where
  "Shutdown st = st\<lparr>effects := Shutdown_range (shutdownFuncs st) (effects st)\<rparr>"

section \<open>Setting up the trace provider\<close>

text \<open>
  The closure \<^verbatim>\<open>shutdown\<close> that \<^verbatim>\<open>initTraceProvider\<close> registers: it shuts the tracer
  provider down, then the exporter, wraps each error, and combines them.
\<close>

definition shutdown :: "collaborators \<Rightarrow> callback" where
  "shutdown c w =
     (let err1 = tp_Shutdown_result c (count_list w TracerProvider_Shutdown);
          w = w @ [TracerProvider_Shutdown];
          err1 = (case err1 of None \<Rightarrow> None
                  | Some e \<Rightarrow> Some (Wrap e ''Failed to shut down the tracer provider.''));
          err2 = exporter_Shutdown_result c (count_list w Exporter_Shutdown);
          w = w @ [Exporter_Shutdown];
          err2 = (case err2 of None \<Rightarrow> None
                  | Some e \<Rightarrow> Some (Wrap e ''Failed to shut down the SigNoz exporter.''))
      in case (err1, err2) of
           (Some e1, Some e2) \<Rightarrow> (Some (Wrap e1 (error_Error e2)), w)
         | (Some e1, None) \<Rightarrow> (Some e1, w)
         | (None, _) \<Rightarrow> (err2, w))"

text \<open>\<^verbatim>\<open>func initTraceProvider(serviceName, collectorURL string, supportTLS bool) error\<close>.\<close>

definition initTraceProvider ::
  "collaborators \<Rightarrow> string \<Rightarrow> string \<Rightarrow> bool \<Rightarrow> otel_state \<Rightarrow> error option outcome \<times> otel_state"
where
  "initTraceProvider c serviceName collectorURL supportTLS st =
     (let opts = [WithEndpoint collectorURL] in
      if \<not> supportTLS then
        (let opts = opts @ [WithInsecure];
             st = emit (Println ''Insecure connection to the collector'') st;
             st = emit (otlptracegrpc_New opts) st
         in case New_result c opts of
              Some err \<Rightarrow> (Returns (Some (Wrap err ''Failed to create OTLP exporter'')), st)
            | None \<Rightarrow>
                (let st = emit (NewTracerProvider serviceName) st;
                     st = emit SetTracerProvider st;
                     st = st\<lparr>shutdownFuncs := shutdownFuncs st @ [shutdown c]\<rparr>
                 in (Returns None, st)))
      else (Exits, emit (Fatal_string ''TLS is not implemented yet'') st))"

text \<open>
  \<^verbatim>\<open>func initOtelHelper()\<close> of \<^verbatim>\<open>otelHelper/otelHelper.go\<close>. (The one-file revision of
  the package differs in one place: for an empty \<^verbatim>\<open>OTEL_COLLECTOR_URL\<close> it takes
  \<^verbatim>\<open>localhost:4317\<close> and prints \<^verbatim>\<open>OTEL_COLLECTOR_URL not set, using default\<close>.)
\<close>

definition initOtelHelper :: "collaborators \<Rightarrow> otel_state \<Rightarrow> unit outcome \<times> otel_state" where
  "initOtelHelper c st =
     (let st = emit SetTextMapPropagator st;
          st = godotenv_Load (dotenv c) st;
          serviceName = Getenv st ''OTEL_SERVICE_NAME'';
          (serviceName, st) =
            (if serviceName = [] then
               (''TestService'', emit (Println ''OTEL_SERVICE_NAME not set, using default'') st)
             else (serviceName, st));
          collectorURL = Getenv st ''OTEL_COLLECTOR_URL'';
          st = (if collectorURL = [] then
                  emit (Println ''OTEL_COLLECTOR_URL not set, trace export will be skipped'') st
                else st);
          (supportTLS, err) = ParseBool (Getenv st ''OTEL_SUPPORT_TLS'');
          (supportTLS, st) =
            (case err of
               Some e \<Rightarrow>
                 (False, emit (Printf_NumError ''Failed to parse OTEL_SUPPORT_TLS, using default. %v'' e) st)
             | None \<Rightarrow> (supportTLS, st))
      in case initTraceProvider c serviceName collectorURL supportTLS st of
           (Exits, st) \<Rightarrow> (Exits, st)
         | (Returns (Some err), st) \<Rightarrow>
             (Exits, emit (Fatalf_error ''Failed to set up the trace provider. %v'' err) st)
         | (Returns None, st) \<Rightarrow> (Returns (), st))"

text \<open>
  \<^verbatim>\<open>func SetupOtelHelper()\<close>: \<^verbatim>\<open>once.Do\<close> runs the body on the first call only and marks
  the gate when the body has returned.
\<close>

definition SetupOtelHelper :: "collaborators \<Rightarrow> otel_state \<Rightarrow> unit outcome \<times> otel_state" where
  "SetupOtelHelper c st =
     (if once_done st then (Returns (), st)
      else case initOtelHelper c st of
             (Exits, st) \<Rightarrow> (Exits, st)
           | (Returns u, st) \<Rightarrow> (Returns (), st\<lparr>once_done := True\<rparr>))"

text \<open>
  A process calls the two exported functions in some order; a call that exits ends the
  sequence. The process starts with nothing registered and the gate open.
\<close>

datatype call = Call_SetupOtelHelper | Call_Shutdown

fun run :: "collaborators \<Rightarrow> call list \<Rightarrow> otel_state \<Rightarrow> unit outcome \<times> otel_state" where
  "run c [] st = (Returns (), st)"
| "run c (Call_SetupOtelHelper # calls) st =
     (case SetupOtelHelper c st of
        (Exits, st) \<Rightarrow> (Exits, st)
      | (Returns u, st) \<Rightarrow> run c calls st)"
| "run c (Call_Shutdown # calls) st = run c calls (Shutdown st)"

definition start :: "(string \<rightharpoonup> string) \<Rightarrow> otel_state" where
  "start env = \<lparr>environ = env, once_done = False, shutdownFuncs = [], effects = []\<rparr>"

section \<open>Text of numbers and times\<close>

text \<open>Decimal digits of a natural number, most significant first.\<close>

fun decimal :: "nat \<Rightarrow> string" where
  "decimal n =
     (if n < 10 then [''0123456789'' ! n]
      else decimal (n div 10) @ [''0123456789'' ! (n mod 10)])"

text \<open>Library call \<^verbatim>\<open>fmt.Sprintf("%d", v)\<close> for an \<^verbatim>\<open>int\<close>.\<close>

definition Sprintf_d :: "int \<Rightarrow> string" where
  "Sprintf_d v = (if v < 0 then CHR ''-'' # decimal (nat (- v)) else decimal (nat v))"

text \<open>
  What \<^verbatim>\<open>time.Time.Format\<close> reads of a time: its civil date and clock in its own
  location, and the offset of that location from UTC in seconds.
\<close>

record Time =
  year :: int
  month :: int
  day :: int
  hour :: int
  minute :: int
  second :: int
  zone_offset :: int

text \<open>
  Library function \<^verbatim>\<open>appendInt\<close> of package \<^verbatim>\<open>time\<close>: a sign, then the decimal digits
  padded with zeros on the left to the width.
\<close>

definition appendInt :: "int \<Rightarrow> nat \<Rightarrow> string" where
  "appendInt x width =
     (let ds = decimal (nat \<bar>x\<bar>)
      in (if x < 0 then ''-'' else []) @ replicate (width - length ds) CHR ''0'' @ ds)"

text \<open>
  Library call \<^verbatim>\<open>t.Format(time.RFC3339)\<close>, the layout \<^verbatim>\<open>2006-01-02T15:04:05Z07:00\<close>:
  the zone is \<^verbatim>\<open>Z\<close> for offset 0 and otherwise a sign, hours and minutes (Go's division
  of the offset truncates towards zero).
\<close>

definition Format_RFC3339 :: "Time \<Rightarrow> string" where
  "Format_RFC3339 t =
     appendInt (year t) 4 @ ''-'' @ appendInt (month t) 2 @ ''-'' @ appendInt (day t) 2 @ ''T''
     @ appendInt (hour t) 2 @ '':'' @ appendInt (minute t) 2 @ '':'' @ appendInt (second t) 2
     @ (if zone_offset t = 0 then ''Z''
        else (let zone = \<bar>zone_offset t\<bar> div 60
              in (if zone_offset t \<le> - 60 then ''-'' else ''+'')
                 @ appendInt (zone div 60) 2 @ '':'' @ appendInt (zone mod 60) 2))"

section \<open>Log entries, contexts and spans\<close>

text \<open>
  A value of the entry's field map (\<^verbatim>\<open>map[string]interface{}\<close>): the hook tells a
  \<^verbatim>\<open>string\<close>, an \<^verbatim>\<open>int\<close> and everything else apart.
\<close>

datatype field_value = string_value string | int_value int | other_value

text \<open>\<^verbatim>\<open>attribute.String(key, value)\<close>: every attribute of this program is a string.\<close>

type_synonym KeyValue = "string \<times> string"

record Event =
  Name :: string
  Attributes :: "KeyValue list"

text \<open>
  A span is the SDK's recording span (named by a number) or the API's no-op span. A
  \<^verbatim>\<open>context.Context\<close> is nil, or carries a span, or carries none.
\<close>

datatype Span = noopSpan | recordingSpan nat

datatype Context = nil_Context | Context_without_span | Context_with_span Span

text \<open>The events recorded so far on each recording span.\<close>

type_synonym span_events = "nat \<Rightarrow> Event list"

text \<open>
  Library function \<^verbatim>\<open>trace.SpanFromContext\<close>: the span of the context, the no-op span
  for a nil context or one without a span; never a nil interface.
\<close>

definition SpanFromContext :: "Context \<Rightarrow> Span option" where
  "SpanFromContext ctx =
     (case ctx of
        nil_Context \<Rightarrow> Some noopSpan
      | Context_without_span \<Rightarrow> Some noopSpan
      | Context_with_span span \<Rightarrow> Some span)"

text \<open>
  Library method \<^verbatim>\<open>Span.AddEvent(name, trace.WithAttributes(args...))\<close>: the no-op span
  drops the event, a recording span appends it.
\<close>

definition AddEvent :: "Span \<Rightarrow> string \<Rightarrow> KeyValue list \<Rightarrow> span_events \<Rightarrow> span_events" where
  "AddEvent span name args spans =
     (case span of
        noopSpan \<Rightarrow> spans
      | recordingSpan i \<Rightarrow> spans(i := spans i @ [\<lparr>Name = name, Attributes = args\<rparr>]))"

text \<open>The fields of \<^verbatim>\<open>logrus.Entry\<close> that the hooks read and write.\<close>

record Entry =
  Data :: "string \<rightharpoonup> field_value"
  Time :: Time
  Level :: logrus_Level
  Message :: string
  Context :: Context

section \<open>The hooks\<close>

datatype Hook = LogrusContextHook | LogrusOtelHook | LogrusOtelShutdownHook

text \<open>\<^verbatim>\<open>func (hook LogrusContextHook) Levels() []logrus.Level\<close>.\<close>

definition LogrusContextHook_Levels :: "logrus_Level list" where
  "LogrusContextHook_Levels = [DebugLevel, WarnLevel, ErrorLevel, FatalLevel, PanicLevel]"

text \<open>\<^verbatim>\<open>func (hook LogrusOtelHook) Levels() []logrus.Level\<close>.\<close>

definition LogrusOtelHook_Levels :: "logrus_Level list" where
  "LogrusOtelHook_Levels = [WarnLevel, ErrorLevel, FatalLevel, PanicLevel]"

text \<open>\<^verbatim>\<open>func (hook LogrusOtelShutdownHook) Levels() []logrus.Level\<close>.\<close>

definition LogrusOtelShutdownHook_Levels :: "logrus_Level list" where
  "LogrusOtelShutdownHook_Levels = [FatalLevel, PanicLevel]"

text \<open>The method \<^verbatim>\<open>Levels\<close> of the interface \<^verbatim>\<open>logrus.Hook\<close>.\<close>

definition Hook_Levels :: "Hook \<Rightarrow> logrus_Level list" where
  "Hook_Levels hook =
     (case hook of
        LogrusContextHook \<Rightarrow> LogrusContextHook_Levels
      | LogrusOtelHook \<Rightarrow> LogrusOtelHook_Levels
      | LogrusOtelShutdownHook \<Rightarrow> LogrusOtelShutdownHook_Levels)"

text \<open>
  \<^verbatim>\<open>func (hook LogrusContextHook) Fire(entry *logrus.Entry) error\<close> as in
  \<^verbatim>\<open>logHelper.go\<close> of package \<^verbatim>\<open>main\<close>: the answer of \<^verbatim>\<open>runtime.Caller\<close> (file and line, or
  not ok) is the first argument. The revision of package \<^verbatim>\<open>loggingHelper\<close> stores the
  same two fields when the lookup succeeds and, when it fails, logs a debug entry
  before it returns nil.
\<close>

definition LogrusContextHook_Fire :: "(string \<times> int) option \<Rightarrow> Entry \<Rightarrow> error option \<times> Entry" where
  "LogrusContextHook_Fire caller entry =
     (case caller of
        Some (file, line) \<Rightarrow>
          (None, entry\<lparr>Data := (Data entry)(''file'' \<mapsto> string_value file, ''line'' \<mapsto> int_value line)\<rparr>)
      | None \<Rightarrow> (None, entry))"

text \<open>\<^verbatim>\<open>func addEvent(ctx context.Context, args ...attribute.KeyValue)\<close>.\<close>

definition addEvent :: "Context \<Rightarrow> KeyValue list \<Rightarrow> span_events \<Rightarrow> span_events" where
  "addEvent ctx args spans =
     (case SpanFromContext ctx of
        Some span \<Rightarrow> AddEvent span ''log'' args spans
      | None \<Rightarrow> spans)"

text \<open>The closure \<^verbatim>\<open>getAttributeValue\<close> of \<^verbatim>\<open>LogrusOtelHook.Fire\<close>.\<close>

definition getAttributeValue :: "Entry \<Rightarrow> string \<Rightarrow> string \<Rightarrow> KeyValue" where
  "getAttributeValue entry key defaultValue =
     (case Data entry key of
        Some (string_value v) \<Rightarrow> (key, v)
      | Some (int_value v) \<Rightarrow> (key, Sprintf_d v)
      | _ \<Rightarrow> (key, defaultValue))"

text \<open>
  \<^verbatim>\<open>func (hook LogrusOtelHook) Fire(entry *logrus.Entry) error\<close> of package
  \<^verbatim>\<open>loggingHelper\<close>: the message has the key \<^verbatim>\<open>msg\<close>.
\<close>

definition LogrusOtelHook_Fire :: "Entry \<Rightarrow> span_events \<Rightarrow> error option \<times> span_events" where
  "LogrusOtelHook_Fire entry spans =
     (let messageValue = (''msg'', Message entry);
          levelValue = (''level'', logrus_Level_String (Level entry));
          fileValue = getAttributeValue entry ''file'' ''unknown'';
          lineValue = getAttributeValue entry ''line'' ''unknown'';
          timeValue = (''time'', Format_RFC3339 (Time entry))
      in (None, addEvent (Context entry) [messageValue, levelValue, fileValue, lineValue, timeValue] spans))"

text \<open>
  The same method in \<^verbatim>\<open>logHelper.go\<close> of package \<^verbatim>\<open>main\<close>: there the message has the key
  \<^verbatim>\<open>level\<close>, like the level name.
\<close>

definition LogrusOtelHook_Fire_main :: "Entry \<Rightarrow> span_events \<Rightarrow> error option \<times> span_events" where
  "LogrusOtelHook_Fire_main entry spans =
     (let messageValue = (''level'', Message entry);
          levelValue = (''level'', logrus_Level_String (Level entry));
          fileValue = getAttributeValue entry ''file'' ''unknown'';
          lineValue = getAttributeValue entry ''line'' ''unknown'';
          timeValue = (''time'', Format_RFC3339 (Time entry))
      in (None, addEvent (Context entry) [messageValue, levelValue, fileValue, lineValue, timeValue] spans))"

text \<open>
  \<^verbatim>\<open>func (hook LogrusOtelShutdownHook) Fire(entry *logrus.Entry) error\<close>: calls
  \<^verbatim>\<open>otelHelper.Shutdown()\<close>.
\<close>

definition LogrusOtelShutdownHook_Fire :: "Entry \<Rightarrow> otel_state \<Rightarrow> error option \<times> otel_state" where
  "LogrusOtelShutdownHook_Fire entry st = (None, Shutdown st)"

section \<open>The logger\<close>

text \<open>
  Of \<^verbatim>\<open>logrus.Logger\<close>: the threshold and the hooks of each level
  (\<^verbatim>\<open>map[Level][]Hook\<close>). \<^verbatim>\<open>logrus.New()\<close> starts at \<^verbatim>\<open>InfoLevel\<close> without hooks;
  \<^verbatim>\<open>SetLevel\<close> stores the threshold and \<^verbatim>\<open>AddHook\<close> appends the hook to the list of each
  of its levels. (Library type and functions.)
\<close>

record Logger =
  Logger_Level :: logrus_Level
  Hooks :: "logrus_Level \<Rightarrow> Hook list"

definition logrus_New :: Logger where
  "logrus_New = \<lparr>Logger_Level = InfoLevel, Hooks = (\<lambda>level. [])\<rparr>"

definition SetLevel :: "logrus_Level \<Rightarrow> Logger \<Rightarrow> Logger" where
  "SetLevel level logger = logger\<lparr>Logger_Level := level\<rparr>"

definition AddHook :: "Hook \<Rightarrow> Logger \<Rightarrow> Logger" where
  "AddHook hook logger =
     logger\<lparr>Hooks := foldl (\<lambda>hooks level. hooks(level := hooks level @ [hook]))
                           (Hooks logger) (Hook_Levels hook)\<rparr>"

text \<open>
  The package-level variables of \<^verbatim>\<open>loggingHelper\<close>: \<^verbatim>\<open>logHelper\<close> (nil at first) and
  \<^verbatim>\<open>once\<close>.
\<close>

record log_state =
  logHelper :: "Logger option"
  log_once_done :: bool

text \<open>
  \<^verbatim>\<open>func initLogHelper()\<close> of the revision that has the shutdown hook; the formatter
  only shapes the output and is left out. (The first revision, package \<^verbatim>\<open>main\<close>, adds
  the first two hooks only and keeps the library's default threshold, which is
  \<^verbatim>\<open>InfoLevel\<close> too.)
\<close>

definition initLogHelper :: "log_state \<Rightarrow> log_state" where
  "initLogHelper st =
     (let logrusLogger = logrus_New;
          logrusLogger = SetLevel InfoLevel logrusLogger;
          logrusLogger = AddHook LogrusContextHook logrusLogger;
          logrusLogger = AddHook LogrusOtelHook logrusLogger;
          logrusLogger = AddHook LogrusOtelShutdownHook logrusLogger
      in st\<lparr>logHelper := Some logrusLogger\<rparr>)"

text \<open>\<^verbatim>\<open>func GetLogHelper() *LogHelper\<close>: initialises once and returns the variable.\<close>

definition GetLogHelper :: "log_state \<Rightarrow> Logger option \<times> log_state" where
  "GetLogHelper st =
     (let st = (if log_once_done st then st else (initLogHelper st)\<lparr>log_once_done := True\<rparr>)
      in (logHelper st, st))"

text \<open>
  \<^verbatim>\<open>func SetLogLevel(level Level)\<close>. Following a nil \<^verbatim>\<open>*LogHelper\<close> would panic: that is
  the result \<open>None\<close>.
\<close>

definition SetLogLevel :: "Level \<Rightarrow> log_state \<Rightarrow> log_state option" where
  "SetLogLevel level st =
     (case GetLogHelper st of
        (None, st) \<Rightarrow> None
      | (Some logger, st) \<Rightarrow> Some (st\<lparr>logHelper := Some (SetLevel (getLogrusLevel level) logger)\<rparr>))"

text \<open>The state of a process that has not called the logging package yet.\<close>

definition log_start :: log_state where
  "log_start = \<lparr>logHelper = None, log_once_done = False\<rparr>"

section \<open>Firing the hooks of a level\<close>

text \<open>What the hooks act on: the state of \<^verbatim>\<open>otelHelper\<close> and the events of the spans.\<close>

record hook_world =
  otel :: otel_state
  spans :: span_events

text \<open>The method \<^verbatim>\<open>Fire\<close> of the interface \<^verbatim>\<open>logrus.Hook\<close>.\<close>

definition Hook_Fire ::
  "(string \<times> int) option \<Rightarrow> Hook \<Rightarrow> Entry \<Rightarrow> hook_world \<Rightarrow> error option \<times> Entry \<times> hook_world"
where
  "Hook_Fire caller hook entry w =
     (case hook of
        LogrusContextHook \<Rightarrow>
          (let (err, entry) = LogrusContextHook_Fire caller entry in (err, entry, w))
      | LogrusOtelHook \<Rightarrow>
          (let (err, s) = LogrusOtelHook_Fire entry (spans w) in (err, entry, w\<lparr>spans := s\<rparr>))
      | LogrusOtelShutdownHook \<Rightarrow>
          (let (err, st) = LogrusOtelShutdownHook_Fire entry (otel w) in (err, entry, w\<lparr>otel := st\<rparr>)))"

text \<open>
  Library method \<^verbatim>\<open>LevelHooks.Fire\<close>: fires the hooks of the entry's level in the order
  in which they were added and stops at the first error.
\<close>

fun LevelHooks_Fire ::
  "(string \<times> int) option \<Rightarrow> Hook list \<Rightarrow> Entry \<Rightarrow> hook_world \<Rightarrow> error option \<times> Entry \<times> hook_world"
where
  "LevelHooks_Fire caller [] entry w = (None, entry, w)"
| "LevelHooks_Fire caller (hook # hooks) entry w =
     (case Hook_Fire caller hook entry w of
        (Some err, entry, w) \<Rightarrow> (Some err, entry, w)
      | (None, entry, w) \<Rightarrow> LevelHooks_Fire caller hooks entry w)"

definition fireHooks ::
  "Logger \<Rightarrow> (string \<times> int) option \<Rightarrow> Entry \<Rightarrow> hook_world \<Rightarrow> error option \<times> Entry \<times> hook_world"
where
  "fireHooks logger caller entry w = LevelHooks_Fire caller (Hooks logger (Level entry)) entry w"

text \<open>The five constants of \<^verbatim>\<open>Level\<close>, in the order of their declaration.\<close>

definition Level_constants :: "Level list" where
  "Level_constants = [Debug, Info, Warn, Error, Fatal]"

section \<open>Facts about the levels\<close>

lemmas logrus_levels =
  PanicLevel_def FatalLevel_def ErrorLevel_def WarnLevel_def InfoLevel_def DebugLevel_def
  TraceLevel_def

lemmas Level_consts = Debug_def Info_def Warn_def Error_def Fatal_def

lemma word_le_3: "(l::32 word) \<le> 3 \<longleftrightarrow> l = 0 \<or> l = 1 \<or> l = 2 \<or> l = 3"
proof
  assume "l \<le> 3"
  then have "unat l \<le> 3" by (simp add: word_le_nat_alt)
  then consider "unat l = 0" | "unat l = 1" | "unat l = 2" | "unat l = 3" by linarith
  then have "of_nat (unat l) \<in> {0, 1, 2, 3 :: 32 word}"
    by cases simp_all
  then show "l = 0 \<or> l = 1 \<or> l = 2 \<or> l = 3" by simp
next
  assume "l = 0 \<or> l = 1 \<or> l = 2 \<or> l = 3"
  then show "l \<le> 3" by auto
qed

lemma Warn_or_above: "set LogrusOtelHook_Levels = {level. level \<le> WarnLevel}"
  by (auto simp: LogrusOtelHook_Levels_def logrus_levels word_le_3)

lemma initial_logger:
  "GetLogHelper log_start =
     (Some \<lparr>Logger_Level = InfoLevel,
            Hooks = (\<lambda>level.
              (if level \<in> set LogrusContextHook_Levels then [LogrusContextHook] else []) @
              (if level \<in> set LogrusOtelHook_Levels then [LogrusOtelHook] else []) @
              (if level \<in> set LogrusOtelShutdownHook_Levels then [LogrusOtelShutdownHook] else []))\<rparr>,
      \<lparr>logHelper = Some \<lparr>Logger_Level = InfoLevel,
            Hooks = (\<lambda>level.
              (if level \<in> set LogrusContextHook_Levels then [LogrusContextHook] else []) @
              (if level \<in> set LogrusOtelHook_Levels then [LogrusOtelHook] else []) @
              (if level \<in> set LogrusOtelShutdownHook_Levels then [LogrusOtelShutdownHook] else []))\<rparr>,
       log_once_done = True\<rparr>)"
  by (auto simp: GetLogHelper_def log_start_def initLogHelper_def logrus_New_def SetLevel_def
        AddHook_def Hook_Levels_def LogrusContextHook_Levels_def LogrusOtelHook_Levels_def
        LogrusOtelShutdownHook_Levels_def logrus_levels fun_eq_iff)

text \<open>Changing the threshold leaves the hooks of the logger as they are.\<close>

lemma SetLogLevel_keeps_Hooks:
  assumes "log_once_done st" and "logHelper st = Some logger"
  shows "map_option (\<lambda>st'. map_option Hooks (logHelper st')) (SetLogLevel l st)
           = Some (Some (Hooks logger))"
  using assms by (simp add: SetLogLevel_def GetLogHelper_def SetLevel_def)

section \<open>The severity translation\<close>

text \<open>
  C8. Severity round trip: the five constants of \<open>Level\<close> go to five different levels
  of the logging library, each to the one of the same name; \<open>Level_String\<close> gives each
  its own name; and going back from a library level to the constants that map to it
  finds the one constant, hence the same name.
\<close>

theorem severity_round_trip:
  "map getLogrusLevel Level_constants = [DebugLevel, InfoLevel, WarnLevel, ErrorLevel, FatalLevel]
   \<and> distinct (map getLogrusLevel Level_constants)
   \<and> map Level_String Level_constants = [''Debug'', ''Info'', ''Warn'', ''Error'', ''Fatal'']
   \<and> map (\<lambda>l. map Level_String (filter (\<lambda>l'. getLogrusLevel l' = getLogrusLevel l) Level_constants))
          Level_constants
      = [[''Debug''], [''Info''], [''Warn''], [''Error''], [''Fatal'']]"
  by (simp add: Level_constants_def Level_String_def getLogrusLevel_def Level_consts logrus_levels)

text \<open>
  C10. The translation is total on the 32-bit type: \<open>SetLogLevel\<close> returns for every
  number (no panic) and leaves the threshold at the translated level, and every number
  that is none of the five constants is translated to \<open>DebugLevel\<close> by the default
  branch. The hypothesis is the invariant of the package variables: once the gate is
  marked, the logger is there.
\<close>

theorem getLogrusLevel_total:
  assumes "log_once_done st \<longrightarrow> logHelper st \<noteq> None"
  shows "map_option (\<lambda>st'. map_option Logger_Level (logHelper st')) (SetLogLevel l st)
           = Some (Some (getLogrusLevel l))
         \<and> (l \<notin> set Level_constants \<longrightarrow> getLogrusLevel l = DebugLevel)"
  using assms
  by (auto simp: SetLogLevel_def GetLogHelper_def initLogHelper_def SetLevel_def Let_def
        Level_constants_def getLogrusLevel_def split: option.splits prod.splits)

theorem getLogrusLevel_total_witness:
  "map_option (\<lambda>st'. map_option Logger_Level (logHelper st')) (SetLogLevel 4294967295 log_start)
     = Some (Some DebugLevel)
   \<and> log_once_done (snd (GetLogHelper log_start))
   \<and> map_option (\<lambda>st'. map_option Logger_Level (logHelper st'))
        (SetLogLevel 4294967295 (snd (GetLogHelper log_start)))
     = Some (Some DebugLevel)
   \<and> (4294967295 :: Level) \<notin> set Level_constants
   \<and> getLogrusLevel 4294967295 = DebugLevel"
proof -
  have h: "log_once_done log_start \<longrightarrow> logHelper log_start \<noteq> None"
    by (simp add: log_start_def)
  have h': "log_once_done (snd (GetLogHelper log_start))
              \<longrightarrow> logHelper (snd (GetLogHelper log_start)) \<noteq> None"
    by (simp add: initial_logger)
  have o: "log_once_done (snd (GetLogHelper log_start))"
    by (simp add: initial_logger)
  have n: "(4294967295 :: Level) \<notin> set Level_constants"
    by (simp add: Level_constants_def Level_consts)
  note t = getLogrusLevel_total [OF h, of 4294967295]
  note t' = getLogrusLevel_total [OF h', of 4294967295]
  from t n have g: "getLogrusLevel 4294967295 = DebugLevel" by blast
  from t have "map_option (\<lambda>st'. map_option Logger_Level (logHelper st')) (SetLogLevel 4294967295 log_start)
     = Some (Some (getLogrusLevel 4294967295))" by blast
  then have 1: "map_option (\<lambda>st'. map_option Logger_Level (logHelper st')) (SetLogLevel 4294967295 log_start)
     = Some (Some DebugLevel)" unfolding g .
  from t' have "map_option (\<lambda>st'. map_option Logger_Level (logHelper st'))
        (SetLogLevel 4294967295 (snd (GetLogHelper log_start)))
     = Some (Some (getLogrusLevel 4294967295))" by blast
  then have 2: "map_option (\<lambda>st'. map_option Logger_Level (logHelper st'))
        (SetLogLevel 4294967295 (snd (GetLogHelper log_start)))
     = Some (Some DebugLevel)" unfolding g .
  from 1 2 o n g show ?thesis by blast
qed

section \<open>When the hooks are active\<close>

text \<open>
  C9. The call-site hook is registered exactly for \<open>DebugLevel\<close> and for the levels from
  \<open>WarnLevel\<close> up (numerically at most \<open>WarnLevel\<close>). \<open>InfoLevel\<close> is not among them: the
  initialised logger has no hook at all for it, so firing the hooks of an Info entry
  calls nothing, whatever the context, the message and the answer of the call stack
  would be.
\<close>

theorem context_hook_levels:
  "set LogrusContextHook_Levels = {DebugLevel} \<union> {level. level \<le> WarnLevel}
   \<and> InfoLevel \<notin> set LogrusContextHook_Levels
   \<and> (case fst (GetLogHelper log_start) of
        None \<Rightarrow> False
      | Some logger \<Rightarrow>
          {level. LogrusContextHook \<in> set (Hooks logger level)}
            = {DebugLevel} \<union> {level. level \<le> WarnLevel}
          \<and> Hooks logger InfoLevel = []
          \<and> fireHooks logger caller (entry\<lparr>Level := InfoLevel\<rparr>) w
              = (None, entry\<lparr>Level := InfoLevel\<rparr>, w))"
proof -
  have a: "set LogrusContextHook_Levels = {DebugLevel} \<union> {level. level \<le> WarnLevel}"
    by (auto simp: LogrusContextHook_Levels_def logrus_levels word_le_3)
  have b: "InfoLevel \<notin> set LogrusContextHook_Levels"
    by (simp add: LogrusContextHook_Levels_def logrus_levels)
  have c: "InfoLevel \<notin> set LogrusOtelHook_Levels" "InfoLevel \<notin> set LogrusOtelShutdownHook_Levels"
    by (simp_all add: LogrusOtelHook_Levels_def LogrusOtelShutdownHook_Levels_def logrus_levels)
  show ?thesis
    unfolding initial_logger using a b c by (auto simp: fireHooks_def)
qed

section \<open>The bridge from log entries to span events\<close>

lemma Level_String_of_Warn_or_above:
  "level \<in> set LogrusOtelHook_Levels \<Longrightarrow>
     logrus_Level_String level \<in> {''warning'', ''error'', ''fatal'', ''panic''}"
  by (auto simp: LogrusOtelHook_Levels_def logrus_Level_String_def logrus_levels)

text \<open>
  C1 (as amended). For an entry of level Warn or above (numerically at most
  \<open>WarnLevel\<close>) whose context carries a recording span, the hooks that the initialised
  logger fires for the entry's level return no error and append exactly one event to
  that span and to no other. The event is the one that \<open>LogrusOtelHook_Fire\<close> builds
  after \<open>LogrusContextHook_Fire\<close> has run: its name is \<^verbatim>\<open>log\<close> and it has the five
  attributes \<^verbatim>\<open>msg\<close>, \<^verbatim>\<open>level\<close>, \<^verbatim>\<open>file\<close>, \<^verbatim>\<open>line\<close> and \<^verbatim>\<open>time\<close>: the message, the name of the
  level, the file and the line, and the entry's time in the RFC3339 layout. File and
  line are those of the call site when the lookup in the call stack succeeds (the line
  in decimal). When the lookup fails they are what the entry's own fields hold, and the
  placeholder \<^verbatim>\<open>unknown\<close> for a field that is absent.
\<close>

theorem log_event_through_hooks:
  assumes "Level entry \<le> WarnLevel"
    and "Context entry = Context_with_span (recordingSpan i)"
    and "fst (GetLogHelper log_start) = Some logger"
  shows "fst (fireHooks logger caller entry w) = None
         \<and> spans (snd (snd (fireHooks logger caller entry w))) =
             (spans w)(i := spans w i @
               [\<lparr>Name = ''log'',
                 Attributes =
                   [(''msg'', Message entry),
                    (''level'', logrus_Level_String (Level entry)),
                    (''file'', case caller of
                                 Some (file, line) \<Rightarrow> file
                               | None \<Rightarrow> snd (getAttributeValue entry ''file'' ''unknown'')),
                    (''line'', case caller of
                                 Some (file, line) \<Rightarrow> Sprintf_d line
                               | None \<Rightarrow> snd (getAttributeValue entry ''line'' ''unknown'')),
                    (''time'', Format_RFC3339 (Time entry))]\<rparr>])
         \<and> logrus_Level_String (Level entry) \<in> {''warning'', ''error'', ''fatal'', ''panic''}
         \<and> (Data entry ''file'' = None \<longrightarrow> getAttributeValue entry ''file'' ''unknown'' = (''file'', ''unknown''))
         \<and> (Data entry ''line'' = None \<longrightarrow> getAttributeValue entry ''line'' ''unknown'' = (''line'', ''unknown''))"
proof -
  from assms(1) have lv: "Level entry \<in> set LogrusOtelHook_Levels"
    by (simp add: Warn_or_above)
  then consider "Level entry = WarnLevel" | "Level entry = ErrorLevel"
    | "Level entry = FatalLevel" | "Level entry = PanicLevel"
    by (auto simp: LogrusOtelHook_Levels_def)
  then have "fst (fireHooks logger caller entry w) = None
         \<and> spans (snd (snd (fireHooks logger caller entry w))) =
             (spans w)(i := spans w i @
               [\<lparr>Name = ''log'',
                 Attributes =
                   [(''msg'', Message entry),
                    (''level'', logrus_Level_String (Level entry)),
                    (''file'', case caller of
                                 Some (file, line) \<Rightarrow> file
                               | None \<Rightarrow> snd (getAttributeValue entry ''file'' ''unknown'')),
                    (''line'', case caller of
                                 Some (file, line) \<Rightarrow> Sprintf_d line
                               | None \<Rightarrow> snd (getAttributeValue entry ''line'' ''unknown'')),
                    (''time'', Format_RFC3339 (Time entry))]\<rparr>])"
    using assms(2) assms(3)
    unfolding initial_logger
    by cases
      (auto simp: fireHooks_def Hook_Fire_def LogrusOtelShutdownHook_Fire_def
         LogrusContextHook_Fire_def LogrusOtelHook_Fire_def addEvent_def AddEvent_def
         SpanFromContext_def getAttributeValue_def
         LogrusContextHook_Levels_def LogrusOtelHook_Levels_def LogrusOtelShutdownHook_Levels_def
         logrus_levels split: prod.splits option.splits field_value.splits)
  with Level_String_of_Warn_or_above [OF lv] show ?thesis
    by (simp add: getAttributeValue_def)
qed

theorem log_event_through_hooks_witness:
  "(case fst (GetLogHelper log_start) of
      None \<Rightarrow> False
    | Some logger \<Rightarrow>
        spans (snd (snd (fireHooks logger (Some (''main.go'', 42))
          \<lparr>Data = Map.empty,
           Time = \<lparr>year = 2024, month = 3, day = 9, hour = 7, minute = 5, second = 0, zone_offset = 3600\<rparr>,
           Level = WarnLevel, Message = ''disk full'',
           Context = Context_with_span (recordingSpan 0)\<rparr>
          \<lparr>otel = start Map.empty, spans = (\<lambda>i. [])\<rparr>))) 0
        = [\<lparr>Name = ''log'',
            Attributes = [(''msg'', ''disk full''), (''level'', ''warning''), (''file'', ''main.go''),
                          (''line'', ''42''), (''time'', ''2024-03-09T07:05:00+01:00'')]\<rparr>])"
proof -
  let ?e = "\<lparr>Data = Map.empty,
           Time = \<lparr>year = 2024, month = 3, day = 9, hour = 7, minute = 5, second = 0, zone_offset = 3600\<rparr>,
           Level = WarnLevel, Message = ''disk full'',
           Context = Context_with_span (recordingSpan 0)\<rparr>"
  obtain logger where g: "fst (GetLogHelper log_start) = Some logger"
    by (simp add: initial_logger)
  have l: "Level ?e \<le> WarnLevel"
    by (simp add: logrus_levels)
  have c: "Context ?e = Context_with_span (recordingSpan 0)"
    by simp
  from log_event_through_hooks [OF l c g, of "Some (''main.go'', 42)" "\<lparr>otel = start Map.empty, spans = (\<lambda>i. [])\<rparr>"]
  have "spans (snd (snd (fireHooks logger (Some (''main.go'', 42)) ?e
          \<lparr>otel = start Map.empty, spans = (\<lambda>i. [])\<rparr>))) 0
        = [\<lparr>Name = ''log'',
            Attributes = [(''msg'', ''disk full''), (''level'', ''warning''), (''file'', ''main.go''),
                          (''line'', ''42''), (''time'', ''2024-03-09T07:05:00+01:00'')]\<rparr>]"
    by (simp add: Sprintf_d_def Format_RFC3339_def appendInt_def logrus_Level_String_def logrus_levels)
  with g show ?thesis by simp
qed

text \<open>
  The claim as the specification states it fails: when the lookup in the call stack
  fails for an entry without fields, the event carries \<^verbatim>\<open>unknown\<close> for the file and for
  the line, not a call site.
\<close>

theorem call_site_unknown_counterexample:
  "(case fst (GetLogHelper log_start) of
      None \<Rightarrow> False
    | Some logger \<Rightarrow>
        spans (snd (snd (fireHooks logger None
          \<lparr>Data = Map.empty,
           Time = \<lparr>year = 2024, month = 3, day = 9, hour = 7, minute = 5, second = 0, zone_offset = 0\<rparr>,
           Level = WarnLevel, Message = ''disk full'',
           Context = Context_with_span (recordingSpan 0)\<rparr>
          \<lparr>otel = start Map.empty, spans = (\<lambda>i. [])\<rparr>))) 0
        = [\<lparr>Name = ''log'',
            Attributes = [(''msg'', ''disk full''), (''level'', ''warning''), (''file'', ''unknown''),
                          (''line'', ''unknown''), (''time'', ''2024-03-09T07:05:00Z'')]\<rparr>])"
  by (simp add: initial_logger fireHooks_def Hook_Fire_def
         LogrusContextHook_Fire_def LogrusOtelHook_Fire_def addEvent_def AddEvent_def
         SpanFromContext_def getAttributeValue_def
         LogrusContextHook_Levels_def LogrusOtelHook_Levels_def LogrusOtelShutdownHook_Levels_def
         logrus_levels Format_RFC3339_def appendInt_def logrus_Level_String_def)

text \<open>
  In the revision of package \<^verbatim>\<open>main\<close> the message is stored under the key \<^verbatim>\<open>level\<close>,
  which is the key of the level name too, so the event has two attributes of that key;
  the later revision stores the message under \<^verbatim>\<open>msg\<close>.
\<close>

lemma package_main_message_key:
  assumes "Context entry = Context_with_span (recordingSpan i)"
  shows "map (map fst \<circ> Attributes) (snd (LogrusOtelHook_Fire_main entry (\<lambda>i. [])) i)
           = [[''level'', ''level'', ''file'', ''line'', ''time'']]"
  using assms
  by (simp add: LogrusOtelHook_Fire_main_def addEvent_def SpanFromContext_def AddEvent_def
        getAttributeValue_def split: option.splits field_value.splits)

text \<open>
  C3. For an entry of level Warn or above whose context has no active span (a nil
  context, a context without a span, or one carrying the no-op span),
  \<open>addEvent\<close> records nothing whatever the attributes are, \<open>LogrusOtelHook_Fire\<close> (in
  both revisions) returns no error and leaves the events of every span as they were;
  and firing all the hooks of the initialised logger for such an entry returns no
  error and appends no event to any span either.
\<close>

theorem otel_hook_without_span:
  assumes "Level entry \<le> WarnLevel"
    and "SpanFromContext (Context entry) = Some noopSpan"
    and "fst (GetLogHelper log_start) = Some logger"
  shows "addEvent (Context entry) args s = s
         \<and> LogrusOtelHook_Fire entry s = (None, s)
         \<and> LogrusOtelHook_Fire_main entry s = (None, s)
         \<and> fst (fireHooks logger caller entry w) = None
         \<and> spans (snd (snd (fireHooks logger caller entry w))) = spans w"
proof -
  have fire: "LogrusOtelHook_Fire e s = (None, s)"
    if "SpanFromContext (Context e) = Some noopSpan" for e s
    using that by (simp add: LogrusOtelHook_Fire_def addEvent_def AddEvent_def)
  have add: "addEvent (Context entry) args s = s"
    "LogrusOtelHook_Fire_main entry s = (None, s)"
    using assms(2) by (simp_all add: LogrusOtelHook_Fire_main_def addEvent_def AddEvent_def)
  have ctx: "Context (snd (LogrusContextHook_Fire caller entry)) = Context entry"
    "fst (LogrusContextHook_Fire caller entry) = None"
    by (simp_all add: LogrusContextHook_Fire_def split: option.splits)
  from assms(1) have "Level entry \<in> set LogrusOtelHook_Levels"
    by (simp add: Warn_or_above)
  then consider "Level entry = WarnLevel" | "Level entry = ErrorLevel"
    | "Level entry = FatalLevel" | "Level entry = PanicLevel"
    by (auto simp: LogrusOtelHook_Levels_def)
  then have "fst (fireHooks logger caller entry w) = None
         \<and> spans (snd (snd (fireHooks logger caller entry w))) = spans w"
    using assms(3) assms(2) ctx
    unfolding initial_logger
    by cases
      (auto simp: fireHooks_def Hook_Fire_def fire LogrusOtelShutdownHook_Fire_def
         LogrusContextHook_Levels_def LogrusOtelHook_Levels_def LogrusOtelShutdownHook_Levels_def
         logrus_levels split: prod.splits)
  with fire [OF assms(2)] add show ?thesis by simp
qed

theorem otel_hook_without_span_witness:
  "LogrusOtelHook_Fire
     \<lparr>Data = Map.empty,
      Time = \<lparr>year = 2024, month = 3, day = 9, hour = 7, minute = 5, second = 0, zone_offset = 0\<rparr>,
      Level = ErrorLevel, Message = ''no span here'', Context = Context_without_span\<rparr>
     (\<lambda>i. []) = (None, (\<lambda>i. []))"
proof -
  let ?e = "\<lparr>Data = Map.empty,
      Time = \<lparr>year = 2024, month = 3, day = 9, hour = 7, minute = 5, second = 0, zone_offset = 0\<rparr>,
      Level = ErrorLevel, Message = ''no span here'', Context = Context_without_span\<rparr>"
  have l: "Level ?e \<le> WarnLevel"
    by (simp add: logrus_levels)
  have c: "SpanFromContext (Context ?e) = Some noopSpan"
    by (simp add: SpanFromContext_def)
  have g: "fst (GetLogHelper log_start) = Some (the (fst (GetLogHelper log_start)))"
    by (simp add: initial_logger)
  from otel_hook_without_span [OF l c g] show ?thesis by simp
qed

section \<open>The shutdown callback and the registry\<close>

text \<open>
  C4. The callback that \<open>initTraceProvider\<close> registers shuts down the tracer provider
  and then the exporter, whatever the first returns. When both fail it returns one
  error: the wrapped provider error wrapped once more with the text of the wrapped
  exporter error as its message, so that its text names both failures and its cause is
  the provider's. When exactly one fails it returns that one's wrapped error, and when
  none fails it returns no error.
\<close>

theorem shutdown_combines_errors:
  assumes "tp_Shutdown_result c (count_list w TracerProvider_Shutdown) = r1"
    and "exporter_Shutdown_result c (count_list w Exporter_Shutdown) = r2"
  shows "snd (shutdown c w) = w @ [TracerProvider_Shutdown, Exporter_Shutdown]
     \<and> (\<forall>e1 e2. r1 = Some e1 \<and> r2 = Some e2 \<longrightarrow>
          fst (shutdown c w) =
            Some (Wrap (Wrap e1 ''Failed to shut down the tracer provider.'')
                       (error_Error (Wrap e2 ''Failed to shut down the SigNoz exporter.'')))
          \<and> map_option error_Error (fst (shutdown c w)) =
              Some (''Failed to shut down the SigNoz exporter.: '' @ error_Error e2
                    @ '': Failed to shut down the tracer provider.: '' @ error_Error e1)
          \<and> map_option errors_Cause (fst (shutdown c w)) = Some (errors_Cause e1))
     \<and> (\<forall>e1. r1 = Some e1 \<and> r2 = None \<longrightarrow>
          fst (shutdown c w) = Some (Wrap e1 ''Failed to shut down the tracer provider.''))
     \<and> (\<forall>e2. r1 = None \<and> r2 = Some e2 \<longrightarrow>
          fst (shutdown c w) = Some (Wrap e2 ''Failed to shut down the SigNoz exporter.''))
     \<and> (r1 = None \<and> r2 = None \<longrightarrow> fst (shutdown c w) = None)"
  using assms by (auto simp: shutdown_def Let_def split: option.splits)

theorem shutdown_combines_errors_witness:
  "fst (shutdown \<lparr>dotenv = None, New_result = Map.empty,
                  tp_Shutdown_result = [0 \<mapsto> Fundamental ''provider gone''],
                  exporter_Shutdown_result = [0 \<mapsto> Fundamental ''exporter gone'']\<rparr> [])
     = Some (Wrap (Wrap (Fundamental ''provider gone'') ''Failed to shut down the tracer provider.'')
               ''Failed to shut down the SigNoz exporter.: exporter gone'')
   \<and> map_option error_Error
        (fst (shutdown \<lparr>dotenv = None, New_result = Map.empty,
                  tp_Shutdown_result = [0 \<mapsto> Fundamental ''provider gone''],
                  exporter_Shutdown_result = [0 \<mapsto> Fundamental ''exporter gone'']\<rparr> []))
     = Some ''Failed to shut down the SigNoz exporter.: exporter gone: Failed to shut down the tracer provider.: provider gone''
   \<and> fst (shutdown \<lparr>dotenv = None, New_result = Map.empty,
                  tp_Shutdown_result = Map.empty,
                  exporter_Shutdown_result = [0 \<mapsto> Fundamental ''exporter gone'']\<rparr> [])
     = Some (Wrap (Fundamental ''exporter gone'') ''Failed to shut down the SigNoz exporter.'')
   \<and> fst (shutdown \<lparr>dotenv = None, New_result = Map.empty,
                  tp_Shutdown_result = Map.empty, exporter_Shutdown_result = Map.empty\<rparr> [])
     = None"
  using
    shutdown_combines_errors [of "\<lparr>dotenv = None, New_result = Map.empty,
                  tp_Shutdown_result = [0 \<mapsto> Fundamental ''provider gone''],
                  exporter_Shutdown_result = [0 \<mapsto> Fundamental ''exporter gone'']\<rparr>" "[]"
      "Some (Fundamental ''provider gone'')" "Some (Fundamental ''exporter gone'')"]
    shutdown_combines_errors [of "\<lparr>dotenv = None, New_result = Map.empty,
                  tp_Shutdown_result = Map.empty,
                  exporter_Shutdown_result = [0 \<mapsto> Fundamental ''exporter gone'']\<rparr>" "[]"
      "None" "Some (Fundamental ''exporter gone'')"]
    shutdown_combines_errors [of "\<lparr>dotenv = None, New_result = Map.empty,
                  tp_Shutdown_result = Map.empty, exporter_Shutdown_result = Map.empty\<rparr>" "[]"
      "None" "None"]
  by simp

lemma Shutdown_range_append:
  "Shutdown_range (fs @ gs) w = Shutdown_range gs (Shutdown_range fs w)"
  by (induction fs arbitrary: w) (auto split: prod.splits option.splits)

text \<open>
  C5. \<open>Shutdown\<close> calls every callback of the registry once, in the order of
  registration, and a callback that returns an error does not stop the loop: the error
  is printed and the next callback is called. Stated for a registry of callbacks that
  each leave one mark \<open>e\<close> in the world and return the result \<open>r\<close>: after \<open>Shutdown\<close> the
  marks stand in the order of the registry, each failing one followed by its line.
  For callbacks of any kind: the loop over a registry \<open>fs @ gs\<close> is the loop over \<open>fs\<close>
  followed by the loop over \<open>gs\<close>, whatever the callbacks of \<open>fs\<close> returned.
\<close>

theorem Shutdown_invokes_all_in_order:
  assumes "shutdownFuncs st = map (\<lambda>(e, r). (\<lambda>w. (r, w @ [e]))) rs"
  shows "effects (Shutdown st) =
           effects st @
           concat (map (\<lambda>(e, r). e # (case r of None \<Rightarrow> []
                      | Some err \<Rightarrow> [Printf_error ''Failed to shut down the service. %v'' err])) rs)
         \<and> Shutdown_range (fs @ gs) w = Shutdown_range gs (Shutdown_range fs w)"
proof -
  have "Shutdown_range (map (\<lambda>(e, r). (\<lambda>w. (r, w @ [e]))) rs) w =
          w @ concat (map (\<lambda>(e, r). e # (case r of None \<Rightarrow> []
                      | Some err \<Rightarrow> [Printf_error ''Failed to shut down the service. %v'' err])) rs)"
    for w
    by (induction rs arbitrary: w) (auto split: option.splits)
  with assms show ?thesis by (simp add: Shutdown_def Shutdown_range_append)
qed

theorem Shutdown_invokes_all_in_order_witness:
  "effects (Shutdown \<lparr>environ = Map.empty, once_done = True,
      shutdownFuncs = map (\<lambda>(e, r). (\<lambda>w. (r, w @ [e])))
        [(Println ''first'', Some (Fundamental ''boom'')), (Println ''second'', None),
         (Println ''third'', Some (Fundamental ''bang''))],
      effects = []\<rparr>)
   = [Println ''first'', Printf_error ''Failed to shut down the service. %v'' (Fundamental ''boom''),
      Println ''second'',
      Println ''third'', Printf_error ''Failed to shut down the service. %v'' (Fundamental ''bang'')]"
  using Shutdown_invokes_all_in_order [of "\<lparr>environ = Map.empty, once_done = True,
      shutdownFuncs = map (\<lambda>(e, r). (\<lambda>w. (r, w @ [e])))
        [(Println ''first'', Some (Fundamental ''boom'')), (Println ''second'', None),
         (Println ''third'', Some (Fundamental ''bang''))],
      effects = []\<rparr>" "[(Println ''first'', Some (Fundamental ''boom'')), (Println ''second'', None),
         (Println ''third'', Some (Fundamental ''bang''))]"]
  by simp

section \<open>Setting up\<close>

lemma emit_simps [simp]:
  "environ (emit e st) = environ st" "once_done (emit e st) = once_done st"
  "shutdownFuncs (emit e st) = shutdownFuncs st" "effects (emit e st) = effects st @ [e]"
  by (simp_all add: emit_def)

lemma godotenv_Load_simps [simp]:
  "once_done (godotenv_Load f st) = once_done st"
  "shutdownFuncs (godotenv_Load f st) = shutdownFuncs st"
  "effects (godotenv_Load f st) = effects st"
  by (simp_all add: godotenv_Load_def split: option.splits)

lemma environ_Load_emit: "environ (godotenv_Load f (emit e st)) = environ (godotenv_Load f st)"
  by (simp add: godotenv_Load_def split: option.splits)

lemma Getenv_emit [simp]: "Getenv (emit e st) k = Getenv st k"
  by (simp add: Getenv_def)

lemma Getenv_Load_emit [simp]:
  "Getenv (godotenv_Load f (emit e st)) k = Getenv (godotenv_Load f st) k"
  by (simp add: Getenv_def environ_Load_emit)

lemma initOtelHelper_effects:
  "effects (snd (initOtelHelper c st)) =
     effects st @ [SetTextMapPropagator]
     @ (if Getenv (godotenv_Load (dotenv c) st) ''OTEL_SERVICE_NAME'' = []
        then [Println ''OTEL_SERVICE_NAME not set, using default''] else [])
     @ (if Getenv (godotenv_Load (dotenv c) st) ''OTEL_COLLECTOR_URL'' = []
        then [Println ''OTEL_COLLECTOR_URL not set, trace export will be skipped''] else [])
     @ (case snd (ParseBool (Getenv (godotenv_Load (dotenv c) st) ''OTEL_SUPPORT_TLS'')) of
          Some e \<Rightarrow> [Printf_NumError ''Failed to parse OTEL_SUPPORT_TLS, using default. %v'' e]
        | None \<Rightarrow> [])
     @ (if fst (ParseBool (Getenv (godotenv_Load (dotenv c) st) ''OTEL_SUPPORT_TLS''))
           \<and> snd (ParseBool (Getenv (godotenv_Load (dotenv c) st) ''OTEL_SUPPORT_TLS'')) = None
        then [Fatal_string ''TLS is not implemented yet'']
        else [Println ''Insecure connection to the collector'',
              otlptracegrpc_New
                [WithEndpoint (Getenv (godotenv_Load (dotenv c) st) ''OTEL_COLLECTOR_URL''), WithInsecure]]
           @ (case New_result c
                     [WithEndpoint (Getenv (godotenv_Load (dotenv c) st) ''OTEL_COLLECTOR_URL''), WithInsecure] of
                Some err \<Rightarrow>
                  [Fatalf_error ''Failed to set up the trace provider. %v''
                     (Wrap err ''Failed to create OTLP exporter'')]
              | None \<Rightarrow>
                  [NewTracerProvider
                     (if Getenv (godotenv_Load (dotenv c) st) ''OTEL_SERVICE_NAME'' = [] then ''TestService''
                      else Getenv (godotenv_Load (dotenv c) st) ''OTEL_SERVICE_NAME''),
                   SetTracerProvider]))"
  by (cases "ParseBool (Getenv (godotenv_Load (dotenv c) st) ''OTEL_SUPPORT_TLS'')")
     (auto simp: initOtelHelper_def initTraceProvider_def Let_def
           split: option.splits prod.splits outcome.splits)

lemma initOtelHelper_outcome:
  "fst (initOtelHelper c st) =
     (if fst (ParseBool (Getenv (godotenv_Load (dotenv c) st) ''OTEL_SUPPORT_TLS''))
           \<and> snd (ParseBool (Getenv (godotenv_Load (dotenv c) st) ''OTEL_SUPPORT_TLS'')) = None
      then Exits
      else case New_result c
                  [WithEndpoint (Getenv (godotenv_Load (dotenv c) st) ''OTEL_COLLECTOR_URL''), WithInsecure] of
             Some err \<Rightarrow> Exits
           | None \<Rightarrow> Returns ())"
  by (cases "ParseBool (Getenv (godotenv_Load (dotenv c) st) ''OTEL_SUPPORT_TLS'')")
     (auto simp: initOtelHelper_def initTraceProvider_def Let_def
           split: option.splits prod.splits outcome.splits)

lemma initOtelHelper_state:
  "once_done (snd (initOtelHelper c st)) = once_done st"
  "shutdownFuncs (snd (initOtelHelper c st)) =
     (if fst (initOtelHelper c st) = Returns () then shutdownFuncs st @ [shutdown c]
      else shutdownFuncs st)"
  by (cases "ParseBool (Getenv (godotenv_Load (dotenv c) st) ''OTEL_SUPPORT_TLS'')";
      auto simp: initOtelHelper_def initTraceProvider_def Let_def
           split: option.splits prod.splits outcome.splits)+

lemma SetupOtelHelper_fresh:
  assumes "\<not> once_done st"
  shows "fst (SetupOtelHelper c st) = fst (initOtelHelper c st)"
    and "effects (snd (SetupOtelHelper c st)) = effects (snd (initOtelHelper c st))"
    and "shutdownFuncs (snd (SetupOtelHelper c st)) = shutdownFuncs (snd (initOtelHelper c st))"
    and "once_done (snd (SetupOtelHelper c st)) = (fst (initOtelHelper c st) = Returns ())"
  using assms initOtelHelper_state(1) [of c st]
  by (auto simp: SetupOtelHelper_def split: prod.splits outcome.splits)


lemma start_simps [simp]:
  "environ (start env) = env" "\<not> once_done (start env)" "shutdownFuncs (start env) = []"
  "effects (start env) = []"
  by (simp_all add: start_def)

text \<open>
  C2 (as amended). When \<^verbatim>\<open>otlptracegrpc.New\<close> fails, \<open>initTraceProvider\<close> returns the
  error wrapped with \<^verbatim>\<open>Failed to create OTLP exporter\<close> (same cause, the message put in
  front) and does not exit. Its caller \<open>initOtelHelper\<close> then prints that error with
  \<^verbatim>\<open>log.Fatalf\<close> and exits: \<open>SetupOtelHelper\<close>, which has no result, ends the process
  and registers no callback.
\<close>

theorem exporter_failure_is_fatal_in_initOtelHelper:
  assumes "Getenv (godotenv_Load (dotenv c) st) ''OTEL_COLLECTOR_URL'' = url"
    and "\<not> fst (ParseBool (Getenv (godotenv_Load (dotenv c) st) ''OTEL_SUPPORT_TLS''))"
    and "New_result c [WithEndpoint url, WithInsecure] = Some err"
    and "\<not> once_done st"
  shows "initTraceProvider c serviceName url False st' =
           (Returns (Some (Wrap err ''Failed to create OTLP exporter'')),
            st'\<lparr>effects := effects st' @ [Println ''Insecure connection to the collector'',
                                           otlptracegrpc_New [WithEndpoint url, WithInsecure]]\<rparr>)
         \<and> errors_Cause (Wrap err ''Failed to create OTLP exporter'') = errors_Cause err
         \<and> error_Error (Wrap err ''Failed to create OTLP exporter'') =
             ''Failed to create OTLP exporter: '' @ error_Error err
         \<and> fst (SetupOtelHelper c st) = Exits
         \<and> last (effects (snd (SetupOtelHelper c st))) =
             Fatalf_error ''Failed to set up the trace provider. %v''
               (Wrap err ''Failed to create OTLP exporter'')
         \<and> shutdownFuncs (snd (SetupOtelHelper c st)) = shutdownFuncs st"
proof -
  have "initTraceProvider c serviceName url False st' =
           (Returns (Some (Wrap err ''Failed to create OTLP exporter'')),
            st'\<lparr>effects := effects st' @ [Println ''Insecure connection to the collector'',
                                           otlptracegrpc_New [WithEndpoint url, WithInsecure]]\<rparr>)"
    using assms(3) by (simp add: initTraceProvider_def emit_def)
  moreover have "fst (SetupOtelHelper c st) = Exits"
    using assms by (simp add: SetupOtelHelper_fresh initOtelHelper_outcome)
  moreover have "last (effects (snd (SetupOtelHelper c st))) =
             Fatalf_error ''Failed to set up the trace provider. %v''
               (Wrap err ''Failed to create OTLP exporter'')"
    using assms by (simp add: SetupOtelHelper_fresh initOtelHelper_effects)
  moreover have "shutdownFuncs (snd (SetupOtelHelper c st)) = shutdownFuncs st"
    using assms by (simp add: SetupOtelHelper_fresh initOtelHelper_state initOtelHelper_outcome)
  ultimately show ?thesis by simp
qed

text \<open>
  The claim as the specification states it fails: with an exporter that cannot be
  constructed, a process that calls \<open>SetupOtelHelper\<close> is ended by the package itself.
\<close>

theorem exporter_failure_exits_counterexample:
  "fst (SetupOtelHelper
          \<lparr>dotenv = None, New_result = (\<lambda>opts. Some (Fundamental ''connection refused'')),
           tp_Shutdown_result = Map.empty, exporter_Shutdown_result = Map.empty\<rparr>
          (start Map.empty)) = Exits
   \<and> effects (snd (SetupOtelHelper
          \<lparr>dotenv = None, New_result = (\<lambda>opts. Some (Fundamental ''connection refused'')),
           tp_Shutdown_result = Map.empty, exporter_Shutdown_result = Map.empty\<rparr>
          (start Map.empty))) =
       [SetTextMapPropagator,
        Println ''OTEL_SERVICE_NAME not set, using default'',
        Println ''OTEL_COLLECTOR_URL not set, trace export will be skipped'',
        Printf_NumError ''Failed to parse OTEL_SUPPORT_TLS, using default. %v'' (NumError ''ParseBool'' []),
        Println ''Insecure connection to the collector'',
        otlptracegrpc_New [WithEndpoint [], WithInsecure],
        Fatalf_error ''Failed to set up the trace provider. %v''
          (Wrap (Fundamental ''connection refused'') ''Failed to create OTLP exporter'')]"
  by (simp add: SetupOtelHelper_fresh initOtelHelper_outcome initOtelHelper_effects
        Getenv_def godotenv_Load_def ParseBool_def)

theorem exporter_failure_is_fatal_in_initOtelHelper_witness:
  "fst (SetupOtelHelper
          \<lparr>dotenv = None,
           New_result = [[WithEndpoint ''collector:4317'', WithInsecure] \<mapsto> Fundamental ''connection refused''],
           tp_Shutdown_result = Map.empty, exporter_Shutdown_result = Map.empty\<rparr>
          (start [''OTEL_COLLECTOR_URL'' \<mapsto> ''collector:4317'', ''OTEL_SUPPORT_TLS'' \<mapsto> ''false''])) = Exits
   \<and> last (effects (snd (SetupOtelHelper
          \<lparr>dotenv = None,
           New_result = [[WithEndpoint ''collector:4317'', WithInsecure] \<mapsto> Fundamental ''connection refused''],
           tp_Shutdown_result = Map.empty, exporter_Shutdown_result = Map.empty\<rparr>
          (start [''OTEL_COLLECTOR_URL'' \<mapsto> ''collector:4317'', ''OTEL_SUPPORT_TLS'' \<mapsto> ''false'']))))
      = Fatalf_error ''Failed to set up the trace provider. %v''
          (Wrap (Fundamental ''connection refused'') ''Failed to create OTLP exporter'')"
proof -
  let ?c = "\<lparr>dotenv = None,
           New_result = [[WithEndpoint ''collector:4317'', WithInsecure] \<mapsto> Fundamental ''connection refused''],
           tp_Shutdown_result = Map.empty, exporter_Shutdown_result = Map.empty\<rparr>"
  let ?st = "start [''OTEL_COLLECTOR_URL'' \<mapsto> ''collector:4317'', ''OTEL_SUPPORT_TLS'' \<mapsto> ''false'']"
  have u: "Getenv (godotenv_Load (dotenv ?c) ?st) ''OTEL_COLLECTOR_URL'' = ''collector:4317''"
    by (simp add: Getenv_def godotenv_Load_def)
  have t: "\<not> fst (ParseBool (Getenv (godotenv_Load (dotenv ?c) ?st) ''OTEL_SUPPORT_TLS''))"
    by (simp add: Getenv_def godotenv_Load_def ParseBool_def)
  have n: "New_result ?c [WithEndpoint ''collector:4317'', WithInsecure] = Some (Fundamental ''connection refused'')"
    by simp
  have o: "\<not> once_done ?st" by simp
  from exporter_failure_is_fatal_in_initOtelHelper [OF u t n o] show ?thesis by blast
qed

lemma ParseBool_false [simp]: "ParseBool ''false'' = (False, None)"
  by (simp add: ParseBool_def)

lemma ParseBool_true [simp]: "ParseBool ''true'' = (True, None)"
  by (simp add: ParseBool_def)

lemma ParseBool_error:
  "snd (ParseBool v) \<noteq> None \<Longrightarrow> ParseBool v = (False, Some (NumError ''ParseBool'' v))"
  by (simp add: ParseBool_def split: if_splits)

lemma Getenv_Load_update:
  "Getenv (godotenv_Load f (start (env(k \<mapsto> v)))) k' =
     (if k' = k then v else Getenv (godotenv_Load f (start env)) k')"
  by (simp add: Getenv_def godotenv_Load_def start_def map_add_def split: option.splits)

text \<open>
  C7. Let \<open>v\<close> be the value of \<^verbatim>\<open>OTEL_SUPPORT_TLS\<close> that \<open>initOtelHelper\<close> reads (after the
  \<^verbatim>\<open>.env\<close> file has been loaded) in a fresh process. If \<open>v\<close> is empty (the variable is
  unset) or \<^verbatim>\<open>false\<close>, the exporter is constructed with the insecure option and the TLS
  guard does not fire. If \<open>v\<close> does not parse, a warning with the parse error is printed
  and setup goes on as with \<^verbatim>\<open>false\<close>: the same outcome, the same registry, and the same
  effects but for that warning. If \<open>v\<close> is \<^verbatim>\<open>true\<close>, setup ends the process with
  \<^verbatim>\<open>TLS is not implemented yet\<close> before any exporter is constructed.
\<close>

theorem TLS_flag:
  assumes "Getenv (godotenv_Load (dotenv c) (start env)) ''OTEL_SUPPORT_TLS'' = v"
    and "Getenv (godotenv_Load (dotenv c) (start env)) ''OTEL_COLLECTOR_URL'' = url"
  shows "(v = [] \<or> v = ''false'' \<longrightarrow>
            otlptracegrpc_New [WithEndpoint url, WithInsecure]
              \<in> set (effects (snd (SetupOtelHelper c (start env))))
            \<and> (\<forall>opts. otlptracegrpc_New opts \<in> set (effects (snd (SetupOtelHelper c (start env))))
                  \<longrightarrow> WithInsecure \<in> set opts)
            \<and> Fatal_string ''TLS is not implemented yet''
                 \<notin> set (effects (snd (SetupOtelHelper c (start env)))))
       \<and> (snd (ParseBool v) \<noteq> None \<longrightarrow>
            Printf_NumError ''Failed to parse OTEL_SUPPORT_TLS, using default. %v'' (NumError ''ParseBool'' v)
              \<in> set (effects (snd (SetupOtelHelper c (start env))))
            \<and> fst (SetupOtelHelper c (start env)) =
                fst (SetupOtelHelper c (start (env(''OTEL_SUPPORT_TLS'' \<mapsto> ''false''))))
            \<and> remove1 (Printf_NumError ''Failed to parse OTEL_SUPPORT_TLS, using default. %v''
                         (NumError ''ParseBool'' v))
                 (effects (snd (SetupOtelHelper c (start env)))) =
                effects (snd (SetupOtelHelper c (start (env(''OTEL_SUPPORT_TLS'' \<mapsto> ''false'')))))
            \<and> shutdownFuncs (snd (SetupOtelHelper c (start env))) =
                shutdownFuncs (snd (SetupOtelHelper c (start (env(''OTEL_SUPPORT_TLS'' \<mapsto> ''false''))))))
       \<and> (v = ''true'' \<longrightarrow>
            fst (SetupOtelHelper c (start env)) = Exits
            \<and> last (effects (snd (SetupOtelHelper c (start env)))) =
                Fatal_string ''TLS is not implemented yet''
            \<and> (\<forall>opts. otlptracegrpc_New opts \<notin> set (effects (snd (SetupOtelHelper c (start env)))))
            \<and> shutdownFuncs (snd (SetupOtelHelper c (start env))) = [])"
proof -
  note unfold_setup = SetupOtelHelper_fresh initOtelHelper_effects initOtelHelper_outcome
    initOtelHelper_state Getenv_Load_update
  have unset: "ParseBool [] = (False, Some (NumError ''ParseBool'' []))"
    by (simp add: ParseBool_def)
  have 1: "otlptracegrpc_New [WithEndpoint url, WithInsecure]
              \<in> set (effects (snd (SetupOtelHelper c (start env))))
            \<and> (\<forall>opts. otlptracegrpc_New opts \<in> set (effects (snd (SetupOtelHelper c (start env))))
                  \<longrightarrow> WithInsecure \<in> set opts)
            \<and> Fatal_string ''TLS is not implemented yet''
                 \<notin> set (effects (snd (SetupOtelHelper c (start env))))"
    if "v = [] \<or> v = ''false''"
    using that assms unset by (auto simp: unfold_setup split: option.splits)
  have 2: "Printf_NumError ''Failed to parse OTEL_SUPPORT_TLS, using default. %v'' (NumError ''ParseBool'' v)
              \<in> set (effects (snd (SetupOtelHelper c (start env))))
            \<and> fst (SetupOtelHelper c (start env)) =
                fst (SetupOtelHelper c (start (env(''OTEL_SUPPORT_TLS'' \<mapsto> ''false''))))
            \<and> remove1 (Printf_NumError ''Failed to parse OTEL_SUPPORT_TLS, using default. %v''
                         (NumError ''ParseBool'' v))
                 (effects (snd (SetupOtelHelper c (start env)))) =
                effects (snd (SetupOtelHelper c (start (env(''OTEL_SUPPORT_TLS'' \<mapsto> ''false'')))))
            \<and> shutdownFuncs (snd (SetupOtelHelper c (start env))) =
                shutdownFuncs (snd (SetupOtelHelper c (start (env(''OTEL_SUPPORT_TLS'' \<mapsto> ''false'')))))"
    if "snd (ParseBool v) \<noteq> None"
    using assms ParseBool_error [OF that] by (simp add: unfold_setup split: option.splits)
  have 3: "fst (SetupOtelHelper c (start env)) = Exits
            \<and> last (effects (snd (SetupOtelHelper c (start env)))) =
                Fatal_string ''TLS is not implemented yet''
            \<and> (\<forall>opts. otlptracegrpc_New opts \<notin> set (effects (snd (SetupOtelHelper c (start env)))))
            \<and> shutdownFuncs (snd (SetupOtelHelper c (start env))) = []"
    if "v = ''true''"
    using that assms by (simp add: unfold_setup)
  from 1 2 3 show ?thesis by blast
qed


theorem TLS_flag_witness:
  "otlptracegrpc_New [WithEndpoint [], WithInsecure]
     \<in> set (effects (snd (SetupOtelHelper
           \<lparr>dotenv = None, New_result = Map.empty, tp_Shutdown_result = Map.empty,
            exporter_Shutdown_result = Map.empty\<rparr> (start Map.empty))))
   \<and> otlptracegrpc_New [WithEndpoint ''collector:4317'', WithInsecure]
     \<in> set (effects (snd (SetupOtelHelper
           \<lparr>dotenv = Some [''OTEL_SUPPORT_TLS'' \<mapsto> ''false'', ''OTEL_COLLECTOR_URL'' \<mapsto> ''collector:4317''],
            New_result = Map.empty, tp_Shutdown_result = Map.empty,
            exporter_Shutdown_result = Map.empty\<rparr> (start Map.empty))))
   \<and> Printf_NumError ''Failed to parse OTEL_SUPPORT_TLS, using default. %v'' (NumError ''ParseBool'' ''yes'')
     \<in> set (effects (snd (SetupOtelHelper
           \<lparr>dotenv = None, New_result = Map.empty, tp_Shutdown_result = Map.empty,
            exporter_Shutdown_result = Map.empty\<rparr> (start [''OTEL_SUPPORT_TLS'' \<mapsto> ''yes'']))))
   \<and> fst (SetupOtelHelper
           \<lparr>dotenv = None, New_result = Map.empty, tp_Shutdown_result = Map.empty,
            exporter_Shutdown_result = Map.empty\<rparr> (start [''OTEL_SUPPORT_TLS'' \<mapsto> ''true''])) = Exits"
proof -
  let ?c = "\<lparr>dotenv = None, New_result = Map.empty, tp_Shutdown_result = Map.empty,
            exporter_Shutdown_result = Map.empty\<rparr>"
  let ?d = "\<lparr>dotenv = Some [''OTEL_SUPPORT_TLS'' \<mapsto> ''false'', ''OTEL_COLLECTOR_URL'' \<mapsto> ''collector:4317''],
            New_result = Map.empty, tp_Shutdown_result = Map.empty,
            exporter_Shutdown_result = Map.empty\<rparr>"
  have a: "Getenv (godotenv_Load (dotenv ?c) (start Map.empty)) ''OTEL_SUPPORT_TLS'' = []"
    "Getenv (godotenv_Load (dotenv ?c) (start Map.empty)) ''OTEL_COLLECTOR_URL'' = []"
    by (simp_all add: Getenv_def godotenv_Load_def)
  have b: "Getenv (godotenv_Load (dotenv ?d) (start Map.empty)) ''OTEL_SUPPORT_TLS'' = ''false''"
    "Getenv (godotenv_Load (dotenv ?d) (start Map.empty)) ''OTEL_COLLECTOR_URL'' = ''collector:4317''"
    by (simp_all add: Getenv_def godotenv_Load_def)
  have y: "Getenv (godotenv_Load (dotenv ?c) (start [''OTEL_SUPPORT_TLS'' \<mapsto> ''yes''])) ''OTEL_SUPPORT_TLS'' = ''yes''"
    "Getenv (godotenv_Load (dotenv ?c) (start [''OTEL_SUPPORT_TLS'' \<mapsto> ''yes''])) ''OTEL_COLLECTOR_URL'' = []"
    "snd (ParseBool ''yes'') \<noteq> None"
    by (simp_all add: Getenv_def godotenv_Load_def ParseBool_def)
  have t: "Getenv (godotenv_Load (dotenv ?c) (start [''OTEL_SUPPORT_TLS'' \<mapsto> ''true''])) ''OTEL_SUPPORT_TLS'' = ''true''"
    "Getenv (godotenv_Load (dotenv ?c) (start [''OTEL_SUPPORT_TLS'' \<mapsto> ''true''])) ''OTEL_COLLECTOR_URL'' = []"
    by (simp_all add: Getenv_def godotenv_Load_def)
  from TLS_flag [OF a] have 1: "otlptracegrpc_New [WithEndpoint [], WithInsecure]
     \<in> set (effects (snd (SetupOtelHelper ?c (start Map.empty))))"
    by simp
  from TLS_flag [OF b] have 2: "otlptracegrpc_New [WithEndpoint ''collector:4317'', WithInsecure]
     \<in> set (effects (snd (SetupOtelHelper ?d (start Map.empty))))"
    by simp
  from TLS_flag [OF y(1,2)] y(3) have 3:
    "Printf_NumError ''Failed to parse OTEL_SUPPORT_TLS, using default. %v'' (NumError ''ParseBool'' ''yes'')
     \<in> set (effects (snd (SetupOtelHelper ?c (start [''OTEL_SUPPORT_TLS'' \<mapsto> ''yes'']))))"
    by simp
  from TLS_flag [OF t] have 4:
    "fst (SetupOtelHelper ?c (start [''OTEL_SUPPORT_TLS'' \<mapsto> ''true''])) = Exits"
    by simp
  from 1 2 3 4 show ?thesis by simp
qed

section \<open>Sequences of calls\<close>

lemma Shutdown_empty: "shutdownFuncs st = [] \<Longrightarrow> Shutdown st = st"
  by (simp add: Shutdown_def)

lemma Shutdown_state [simp]:
  "once_done (Shutdown st) = once_done st" "shutdownFuncs (Shutdown st) = shutdownFuncs st"
  "environ (Shutdown st) = environ st"
  by (simp_all add: Shutdown_def)

lemma Shutdown_registered:
  assumes "shutdownFuncs st = [shutdown c]"
  shows "count_list (effects (Shutdown st)) TracerProvider_Shutdown =
           Suc (count_list (effects st) TracerProvider_Shutdown)"
    and "count_list (effects (Shutdown st)) SetTextMapPropagator =
           count_list (effects st) SetTextMapPropagator"
  using assms by (auto simp: Shutdown_def shutdown_def Let_def split: option.splits)

lemma initOtelHelper_counts:
  "count_list (effects (snd (initOtelHelper c st))) SetTextMapPropagator =
     Suc (count_list (effects st) SetTextMapPropagator)"
  "count_list (effects (snd (initOtelHelper c st))) TracerProvider_Shutdown =
     count_list (effects st) TracerProvider_Shutdown"
  by (simp_all add: initOtelHelper_effects split: option.splits)

lemma run_Setup:
  "run c (Call_SetupOtelHelper # calls) st =
     (case fst (SetupOtelHelper c st) of
        Exits \<Rightarrow> (Exits, snd (SetupOtelHelper c st))
      | Returns u \<Rightarrow> run c calls (snd (SetupOtelHelper c st)))"
  by (cases "SetupOtelHelper c st") (auto split: outcome.splits)

text \<open>Once setup has returned, further setup calls change nothing and every shutdown
  call invokes the registered callback.\<close>

lemma run_after_setup:
  assumes "once_done st" and "shutdownFuncs st = [shutdown c]"
  shows "fst (run c calls st) = Returns ()
     \<and> count_list (effects (snd (run c calls st))) SetTextMapPropagator =
         count_list (effects st) SetTextMapPropagator
     \<and> count_list (effects (snd (run c calls st))) TracerProvider_Shutdown =
         count_list (effects st) TracerProvider_Shutdown + count_list calls Call_Shutdown"
  using assms
proof (induction calls arbitrary: st)
  case Nil
  then show ?case by simp
next
  case (Cons x calls)
  show ?case
  proof (cases x)
    case Call_SetupOtelHelper
    with Cons show ?thesis by (simp add: SetupOtelHelper_def)
  next
    case Call_Shutdown
    with Cons.prems Cons.IH [of "Shutdown st"] show ?thesis
      by (simp add: Shutdown_registered)
  qed
qed

text \<open>Before setup the registry is empty and a shutdown call does nothing.\<close>

lemma run_before_setup:
  assumes "\<not> once_done st" and "shutdownFuncs st = []"
  shows "count_list (effects (snd (run c calls st))) SetTextMapPropagator
           \<le> Suc (count_list (effects st) SetTextMapPropagator)
     \<and> count_list (effects (snd (run c calls st))) TracerProvider_Shutdown =
         count_list (effects st) TracerProvider_Shutdown +
         (case fst (run c calls st) of
            Returns u \<Rightarrow> count_list (dropWhile (\<lambda>x. x \<noteq> Call_SetupOtelHelper) calls) Call_Shutdown
          | Exits \<Rightarrow> 0)"
  using assms
proof (induction calls arbitrary: st)
  case Nil
  then show ?case by simp
next
  case (Cons x calls)
  show ?case
  proof (cases x)
    case Call_Shutdown
    with Cons.prems Cons.IH [of st] show ?thesis
      by (simp add: Shutdown_empty split: outcome.splits)
  next
    case Call_SetupOtelHelper
    show ?thesis
    proof (cases "fst (initOtelHelper c st)")
      case Exits
      with Cons.prems have r: "run c (x # calls) st = (Exits, snd (SetupOtelHelper c st))"
        unfolding Call_SetupOtelHelper run_Setup by (simp add: SetupOtelHelper_fresh(1))
      from Cons.prems show ?thesis
        unfolding r by (simp add: SetupOtelHelper_fresh initOtelHelper_counts)
    next
      case (Returns u)
      let ?st = "snd (SetupOtelHelper c st)"
      from Returns Cons.prems have ready: "once_done ?st" "shutdownFuncs ?st = [shutdown c]"
        by (simp_all add: SetupOtelHelper_fresh initOtelHelper_state)
      from Returns Cons.prems have r: "run c (x # calls) st = run c calls ?st"
        unfolding Call_SetupOtelHelper run_Setup by (simp add: SetupOtelHelper_fresh(1))
      from run_after_setup [OF ready, of calls] Cons.prems show ?thesis
        unfolding r using Call_SetupOtelHelper
        by (simp add: SetupOtelHelper_fresh initOtelHelper_counts)
    qed
  qed
qed

text \<open>
  C6 (as amended). In every sequence of calls of a process, the body of setup runs at
  most once (its first statement, setting the propagator, occurs at most once among the
  effects). \<open>Shutdown\<close> has no gate: each call invokes every callback registered so
  far. A shutdown call before setup invokes nothing, and when the process has not
  exited the tracer provider has been shut down once for each shutdown call that
  follows the first setup call; a process that exits in setup has invoked no callback.
\<close>

theorem setup_once_shutdown_every_call:
  "count_list (effects (snd (run c calls (start env)))) SetTextMapPropagator \<le> 1
   \<and> count_list (effects (snd (run c calls (start env)))) TracerProvider_Shutdown =
       (case fst (run c calls (start env)) of
          Returns u \<Rightarrow> count_list (dropWhile (\<lambda>x. x \<noteq> Call_SetupOtelHelper) calls) Call_Shutdown
        | Exits \<Rightarrow> 0)"
  using run_before_setup [of "start env" c calls] by simp

text \<open>
  The claim as the specification states it fails: after one setup, two shutdown calls
  drain the registry twice.
\<close>

theorem shutdown_twice_counterexample:
  "fst (run \<lparr>dotenv = None, New_result = Map.empty, tp_Shutdown_result = Map.empty,
            exporter_Shutdown_result = Map.empty\<rparr>
          [Call_SetupOtelHelper, Call_Shutdown, Call_Shutdown] (start Map.empty)) = Returns ()
   \<and> count_list
        (effects (snd (run \<lparr>dotenv = None, New_result = Map.empty, tp_Shutdown_result = Map.empty,
            exporter_Shutdown_result = Map.empty\<rparr>
          [Call_SetupOtelHelper, Call_Shutdown, Call_Shutdown] (start Map.empty))))
        TracerProvider_Shutdown = 2"
  by (simp add: SetupOtelHelper_def initOtelHelper_def initTraceProvider_def Let_def
        Getenv_def godotenv_Load_def ParseBool_def Shutdown_def shutdown_def)

end
